theory Spec2Isabelle
  imports Main
begin

section \<open>Catalog data\<close>

text \<open>
  The catalog entries of \<^verbatim>\<open>products.json\<close> are dictionaries with the keys
  \<^verbatim>\<open>name\<close>, \<^verbatim>\<open>description\<close>, \<^verbatim>\<open>price\<close>, \<^verbatim>\<open>brand\<close> and \<^verbatim>\<open>category\<close>; the
  payload stored with every point of the vector index has the four keys
  \<^verbatim>\<open>name\<close>, \<^verbatim>\<open>price\<close>, \<^verbatim>\<open>brand\<close>, \<^verbatim>\<open>category\<close>, and the dictionaries returned by
  \<^verbatim>\<open>search_products\<close> add \<^verbatim>\<open>score\<close> to those four. The three shapes are records
  over a common part, so that \<open>name\<close> and \<open>brand\<close> read all of them.

  Prices are JSON numbers and scores and vector components are floats; both stay type
  parameters (\<open>'p\<close> for prices, \<open>'f\<close> for floats), since nothing in the retrieval logic
  computes with them.
\<close>

record 'p payload =
  name :: string
  price :: 'p
  brand :: string
  category :: string

record 'p product = "'p payload" +
  description :: string

record ('p, 'f) search_result = "'p payload" +
  score :: 'f

text \<open>\<^verbatim>\<open>PointStruct(id=idx, vector=vector, payload={...})\<close>\<close>

record ('p, 'f) point_struct =
  idx :: nat
  vector :: "'f list"
  payload :: "'p payload"

text \<open>A hit returned by \<^verbatim>\<open>client.search\<close>: the code reads \<^verbatim>\<open>hit.payload\<close> and \<^verbatim>\<open>hit.score\<close>.\<close>

record ('p, 'f) scored_point =
  hit_payload :: "'p payload"
  hit_score :: 'f

text \<open>
  \<^verbatim>\<open>Filter(must=[FieldCondition(key=..., match=MatchValue(value=...))])\<close>
\<close>

datatype field_condition = FieldCondition (key: string) (match_value: string)

datatype query_filter = Filter (must: "field_condition list")

section \<open>Python values and exceptions\<close>

datatype exn = HTTPError | JSONDecodeError | KeyError | IndexError | TypeError

text \<open>
  A value produced by \<^verbatim>\<open>json.loads\<close> / \<^verbatim>\<open>response.json()\<close>. A number with a fraction
  or an exponent is a Python float; its value never matters to the code below, which
  fails on every float in the same way.
\<close>

datatype json =
    JNull
  | JBool bool
  | JInt int
  | JFloat
  | JStr string
  | JArr "json list"
  | JObj "(string \<times> json) list"

text \<open>\<^verbatim>\<open>xs[i]\<close> on a Python list: a negative index counts from the end.\<close>

definition list_getitem :: "'a list \<Rightarrow> int \<Rightarrow> exn + 'a" where
  "list_getitem xs i =
     (if 0 \<le> i \<and> i < int (length xs) then Inr (xs ! nat i)
      else if - int (length xs) \<le> i \<and> i < 0 then Inr (xs ! nat (int (length xs) + i))
      else Inl IndexError)"

text \<open>\<^verbatim>\<open>v[k]\<close> for a string key \<open>k\<close>: only a dictionary accepts it.\<close>

fun getitem_key :: "json \<Rightarrow> string \<Rightarrow> exn + json" where
  "getitem_key (JObj kvs) k =
     (case map_of kvs k of None \<Rightarrow> Inl KeyError | Some v \<Rightarrow> Inr v)"
| "getitem_key _ k = Inl TypeError"

text \<open>
  \<^verbatim>\<open>v[i]\<close> for an integer \<open>i\<close>: a list is indexed, a string gives the one-character
  string at that position, a dictionary of JSON has string keys only, and the other
  values are not subscriptable.
\<close>

fun getitem_int :: "json \<Rightarrow> int \<Rightarrow> exn + json" where
  "getitem_int (JArr xs) i = list_getitem xs i"
| "getitem_int (JStr s) i =
     (case list_getitem s i of Inl e \<Rightarrow> Inl e | Inr c \<Rightarrow> Inr (JStr [c]))"
| "getitem_int (JObj kvs) i = Inl KeyError"
| "getitem_int _ i = Inl TypeError"

text \<open>
  \<^verbatim>\<open>for i in v\<close>: a list yields its elements, a string its characters, a dictionary
  its keys; \<^verbatim>\<open>None\<close>, booleans and numbers are not iterable.
\<close>

fun iter :: "json \<Rightarrow> exn + json list" where
  "iter (JArr xs) = Inr xs"
| "iter (JStr s) = Inr (map (\<lambda>c. JStr [c]) s)"
| "iter (JObj kvs) = Inr (map (\<lambda>kv. JStr (fst kv)) kvs)"
| "iter _ = Inl TypeError"

text \<open>
  \<^verbatim>\<open>products_data[i-1]\<close> for one element \<open>i\<close> of the parsed list. \<^verbatim>\<open>bool\<close> is a
  subclass of \<^verbatim>\<open>int\<close> in Python (\<^verbatim>\<open>True - 1 == 0\<close>); a float minus one is a float,
  which a list rejects as an index; \<^verbatim>\<open>None\<close>, strings, lists and dictionaries do not
  support \<^verbatim>\<open>- 1\<close>.
\<close>

fun product_at :: "'a list \<Rightarrow> json \<Rightarrow> exn + 'a" where
  "product_at products_data (JInt i) = list_getitem products_data (i - 1)"
| "product_at products_data (JBool b) =
     list_getitem products_data ((if b then 1 else 0) - 1)"
| "product_at products_data _ = Inl TypeError"

text \<open>
  The list comprehension \<^verbatim>\<open>[products_data[i-1] for i in indices]\<close>: elements are
  looked up from left to right and the first exception ends the comprehension.
\<close>

fun comprehension :: "'a list \<Rightarrow> json list \<Rightarrow> exn + 'a list" where
  "comprehension products_data [] = Inr []"
| "comprehension products_data (i # indices) =
     (case product_at products_data i of
        Inl e \<Rightarrow> Inl e
      | Inr p \<Rightarrow>
          (case comprehension products_data indices of
             Inl e \<Rightarrow> Inl e
           | Inr ps \<Rightarrow> Inr (p # ps)))"

definition map_indices :: "'a list \<Rightarrow> json \<Rightarrow> exn + 'a list" where
  "map_indices products_data indices =
     (case iter indices of
        Inl e \<Rightarrow> Inl e
      | Inr xs \<Rightarrow> comprehension products_data xs)"

text \<open>Sequencing of steps inside the \<^verbatim>\<open>try\<close> block: the first exception ends it.\<close>

definition bind_exn :: "exn + 'a \<Rightarrow> ('a \<Rightarrow> exn + 'b) \<Rightarrow> exn + 'b" where
  "bind_exn r f = (case r of Inl e \<Rightarrow> Inl e | Inr v \<Rightarrow> f v)"

section \<open>Strings\<close>

text \<open>\<^verbatim>\<open>str(idx)\<close> for a non-negative integer: its decimal digits.\<close>

definition digit_char :: "nat \<Rightarrow> char" where
  "digit_char d = ''0123456789'' ! d"

fun str_nat :: "nat \<Rightarrow> string" where
  "str_nat n =
     (if n < 10 then [digit_char n] else str_nat (n div 10) @ [digit_char (n mod 10)])"

declare str_nat.simps [simp del]

text \<open>\<^verbatim>\<open>sep.join(parts)\<close>\<close>

fun join :: "string \<Rightarrow> string list \<Rightarrow> string" where
  "join sep [] = []"
| "join sep [x] = x"
| "join sep (x # y # ys) = x @ sep @ join sep (y # ys)"

section \<open>External collaborators\<close>

text \<open>
  The request sent to the LLM service. The prompt is a fixed template with three
  holes: the requested count (twice), the query and the product listing; the URL,
  headers, model name and response format are constants.
\<close>

record llm_request =
  prompt_top_k :: int
  prompt_query :: string
  prompt_context :: string

text \<open>
  The embedding model, the vector index, the HTTP client, \<^verbatim>\<open>json.loads\<close> and
  \<^verbatim>\<open>str\<close> on a price are not part of the repository; they are parameters.
  \<^item> \<open>encode\<close>: \<^verbatim>\<open>encoder.encode(text).tolist()\<close>;
  \<^item> \<open>embedding_dimension\<close>: \<^verbatim>\<open>encoder.get_sentence_embedding_dimension()\<close>;
  \<^item> \<open>client_search\<close>: \<^verbatim>\<open>client.search(collection_name, query_vector, query_filter, limit)\<close>;
  \<^item> \<open>post\<close>: \<^verbatim>\<open>http_client.post(...)\<close>, \<^verbatim>\<open>raise_for_status()\<close> and \<^verbatim>\<open>response.json()\<close>:
    the decoded body, or the exception one of the three raised;
  \<^item> \<open>json_loads\<close>: \<^verbatim>\<open>json.loads\<close> on a string;
  \<^item> \<open>str_price\<close>: how an f-string renders a price.
\<close>

record ('p, 'f) env =
  encode :: "string \<Rightarrow> 'f list"
  embedding_dimension :: nat
  client_search :: "'f list \<Rightarrow> query_filter option \<Rightarrow> int \<Rightarrow> ('p, 'f) scored_point list"
  post :: "llm_request \<Rightarrow> exn + json"
  json_loads :: "string \<Rightarrow> exn + json"
  str_price :: "'p \<Rightarrow> string"

text \<open>What a call does besides returning: the external calls and the diagnostic print.\<close>

datatype 'f effect =
    Encode string
  | Search "'f list" "query_filter option" int
  | Post llm_request
  | Print exn

section \<open>Vector search\<close>

text \<open>
  \<^verbatim>\<open>brand_filter: str = None\<close> is an optional string; \<^verbatim>\<open>if brand_filter:\<close> is false
  for \<^verbatim>\<open>None\<close> and for the empty string.
\<close>

definition search_products ::
  "('p, 'f) env \<Rightarrow> string \<Rightarrow> int \<Rightarrow> string option \<Rightarrow>
     'f effect list \<times> ('p, 'f) search_result list" where
  "search_products env query top_k brand_filter =
     (let query_vector = encode env query;
          qdrant_filter =
            (case brand_filter of
               None \<Rightarrow> None
             | Some b \<Rightarrow>
                 if b \<noteq> [] then Some (Filter [FieldCondition ''brand'' b]) else None);
          results = client_search env query_vector qdrant_filter top_k
      in ([Encode query, Search query_vector qdrant_filter top_k],
          map (\<lambda>hit. \<lparr>name = name (hit_payload hit),
                      price = price (hit_payload hit),
                      brand = brand (hit_payload hit),
                      category = category (hit_payload hit),
                      score = hit_score hit\<rparr>) results))"

section \<open>Semantic search\<close>

definition listing_line :: "('p \<Rightarrow> string) \<Rightarrow> nat \<Rightarrow> 'p product \<Rightarrow> string" where
  "listing_line str_p i p =
     str_nat i @ ''. '' @ name p @ '' ('' @ brand p @ ''): '' @ description p
       @ '' | $'' @ str_p (price p)"

definition context_str :: "('p \<Rightarrow> string) \<Rightarrow> 'p product list \<Rightarrow> string" where
  "context_str str_p products_data =
     join [CHR 0x0A]
       (map (\<lambda>(i, p). listing_line str_p i p) (enumerate 1 products_data))"

text \<open>\<^verbatim>\<open>json.loads(content)\<close>: the argument has to be a string.\<close>

fun loads :: "('p, 'f) env \<Rightarrow> json \<Rightarrow> exn + json" where
  "loads env (JStr s) = json_loads env s"
| "loads env _ = Inl TypeError"

text \<open>
  Lines 117 to 126: the request, then
  \<^verbatim>\<open>json.loads(result["choices"][0]["message"]["content"])["results"]\<close>.
\<close>

definition parsed_indices :: "('p, 'f) env \<Rightarrow> llm_request \<Rightarrow> exn + json" where
  "parsed_indices env request =
     bind_exn (post env request) (\<lambda>result.
     bind_exn (getitem_key result ''choices'') (\<lambda>choices.
     bind_exn (getitem_int choices 0) (\<lambda>choice.
     bind_exn (getitem_key choice ''message'') (\<lambda>message.
     bind_exn (getitem_key message ''content'') (\<lambda>content.
     bind_exn (loads env content) (\<lambda>parsed.
     getitem_key parsed ''results''))))))"

text \<open>Lines 89 to 113: the listing, the prompt and the request body.\<close>

definition build_request ::
  "('p, 'f) env \<Rightarrow> string \<Rightarrow> 'p product list \<Rightarrow> int \<Rightarrow> llm_request" where
  "build_request env query products_data top_k =
     \<lparr>prompt_top_k = top_k, prompt_query = query,
      prompt_context = context_str (str_price env) products_data\<rparr>"

text \<open>
  The \<^verbatim>\<open>try\<close> block returns the mapped products; \<^verbatim>\<open>except Exception\<close> prints the
  exception and returns the empty list.
\<close>

definition semantic_search ::
  "('p, 'f) env \<Rightarrow> string \<Rightarrow> 'p product list \<Rightarrow> int \<Rightarrow>
     'f effect list \<times> 'p product list" where
  "semantic_search env query products_data top_k =
     (let request = build_request env query products_data top_k
      in case bind_exn (parsed_indices env request) (map_indices products_data) of
           Inr found \<Rightarrow> ([Post request], found)
         | Inl e \<Rightarrow> ([Post request, Print e], []))"

section \<open>Hybrid search\<close>

text \<open>
  \<^verbatim>\<open>vector_results + semantic_results\<close> is a list of dictionaries of two shapes.
\<close>

type_synonym ('p, 'f) item = "('p, 'f) search_result + 'p product"

definition item_name :: "('p, 'f) item \<Rightarrow> string" where
  "item_name p = (case p of Inl r \<Rightarrow> name r | Inr q \<Rightarrow> name q)"

text \<open>
  The dictionary \<^verbatim>\<open>combined\<close> keeps insertion order; it is the list of its
  (key, value) pairs in that order.
\<close>

fun merge_loop ::
  "(string \<times> ('p, 'f) item) list \<Rightarrow> ('p, 'f) item list \<Rightarrow> (string \<times> ('p, 'f) item) list" where
  "merge_loop combined [] = combined"
| "merge_loop combined (p # ps) =
     (if map_of combined (item_name p) = None
      then merge_loop (combined @ [(item_name p, p)]) ps
      else merge_loop combined ps)"

text \<open>\<^verbatim>\<open>xs[:k]\<close>: a negative \<open>k\<close> counts from the end.\<close>

definition slice_to :: "'a list \<Rightarrow> int \<Rightarrow> 'a list" where
  "slice_to xs k =
     (if k < 0 then take (nat (int (length xs) + k)) xs else take (nat k) xs)"

definition hybrid_search ::
  "('p, 'f) env \<Rightarrow> 'p product list \<Rightarrow> string \<Rightarrow> int \<Rightarrow>
     'f effect list \<times> ('p, 'f) item list" where
  "hybrid_search env products query top_k =
     (let (effects1, vector_results) = search_products env query top_k None;
          (effects2, semantic_results) = semantic_search env query products top_k;
          combined = merge_loop [] (map Inl vector_results @ map Inr semantic_results)
      in (effects1 @ effects2, slice_to (map snd combined) top_k))"

section \<open>Indexer\<close>

datatype distance = COSINE | EUCLID | DOT

record ('p, 'f) collection =
  vector_size :: nat
  vector_distance :: distance
  points :: "('p, 'f) point_struct list"

text \<open>The in-memory client: its collections by name.\<close>

type_synonym ('p, 'f) client = "string \<Rightarrow> ('p, 'f) collection option"

definition COLLECTION_NAME :: string where
  "COLLECTION_NAME = ''products''"

text \<open>
  Modelled from the spec: the Vector Index (the qdrant client, a library outside the
  repository), which "stores (id, vector, attributes) records" and supports
  \<^verbatim>\<open>recreate(dimension, distance_metric)\<close> and \<^verbatim>\<open>upsert(records)\<close>, the records
  being "keyed by" their identifier. Deleting a collection removes it from the client.
\<close>

definition delete_collection :: "('p, 'f) client \<Rightarrow> string \<Rightarrow> ('p, 'f) client" where
  "delete_collection client n = client(n := None)"

text \<open>Modelled from the spec: a collection that has just been created is empty.\<close>

definition create_collection ::
  "('p, 'f) client \<Rightarrow> string \<Rightarrow> nat \<Rightarrow> distance \<Rightarrow> ('p, 'f) client" where
  "create_collection client n sz d =
     client(n \<mapsto> \<lparr>vector_size = sz, vector_distance = d, points = []\<rparr>)"

text \<open>
  Modelled from the spec: upserting a record replaces the stored record with the same
  identifier, or adds the record when there is none. The indexer upserts into the
  collection it has just created; a client without that collection is left as it is.
\<close>

fun upsert_point ::
  "('p, 'f) point_struct \<Rightarrow> ('p, 'f) point_struct list \<Rightarrow> ('p, 'f) point_struct list" where
  "upsert_point pt [] = [pt]"
| "upsert_point pt (q # qs) =
     (if idx q = idx pt then pt # qs else q # upsert_point pt qs)"

definition upsert ::
  "('p, 'f) client \<Rightarrow> string \<Rightarrow> ('p, 'f) point_struct list \<Rightarrow> ('p, 'f) client" where
  "upsert client n pts =
     (case client n of
        None \<Rightarrow> client
      | Some c \<Rightarrow> client(n \<mapsto> c\<lparr>points := fold upsert_point pts (points c)\<rparr>))"

text \<open>Lines 42 to 58: the list \<^verbatim>\<open>points\<close>.\<close>

definition build_points ::
  "('p, 'f) env \<Rightarrow> 'p product list \<Rightarrow> ('p, 'f) point_struct list" where
  "build_points env products =
     map (\<lambda>(i, product).
            \<lparr>idx = i,
             vector = encode env (name product @ '' '' @ description product),
             payload = \<lparr>name = name product, price = price product,
                        brand = brand product, category = category product\<rparr>\<rparr>)
         (enumerate 0 products)"

text \<open>
  Lines 27 to 60, run once when the module is loaded: an existing collection is
  deleted (\<^verbatim>\<open>get_collection\<close> raises when there is none, and the \<^verbatim>\<open>except\<close> passes),
  the collection is created with the encoder's dimension, and all points are upserted
  in one call.
\<close>

definition indexer ::
  "('p, 'f) env \<Rightarrow> 'p product list \<Rightarrow> ('p, 'f) client \<Rightarrow> ('p, 'f) client" where
  "indexer env products client =
     (let client1 =
            (case client COLLECTION_NAME of
               None \<Rightarrow> client
             | Some c \<Rightarrow> delete_collection client COLLECTION_NAME);
          client2 =
            create_collection client1 COLLECTION_NAME (embedding_dimension env) COSINE
      in upsert client2 COLLECTION_NAME (build_points env products))"

section \<open>The merge as the specification words it\<close>

text \<open>
  "Keeping the first occurrence of each distinct product name and discarding
  subsequent duplicates": the head of the list is kept, and every later entry with
  the head's name is discarded before the rest is treated in the same way. This
  definition follows the wording of the specification, not the code; it is compared
  with \<open>merge_loop\<close> below.
\<close>

function first_occurrences :: "('p, 'f) item list \<Rightarrow> ('p, 'f) item list" where
  "first_occurrences [] = []"
| "first_occurrences (p # ps) =
     p # first_occurrences (filter (\<lambda>q. item_name q \<noteq> item_name p) ps)"
  by pat_completeness auto
termination
  by (relation "measure length") (simp_all add: less_Suc_eq_le)

section \<open>Scenario data\<close>

text \<open>
  Concrete inputs for the scenarios: a catalog of three products with integer prices,
  \<^verbatim>\<open>str\<close> on an integer, and stand-ins for the external services. The stand-in for
  the LLM service answers every request with an envelope whose content parses to
  \<^verbatim>\<open>{"results": results}\<close>; the stand-in for the vector index returns the first
  \<open>limit\<close> of a given ranked list of hits that pass the filter.
\<close>

definition str_int :: "int \<Rightarrow> string" where
  "str_int i = (if i < 0 then ''-'' @ str_nat (nat (- i)) else str_nat (nat i))"

definition phone_a :: "int product" where
  "phone_a = \<lparr>name = ''Phone A'', price = 100, brand = ''X'', category = ''phones'',
              description = ''Small phone''\<rparr>"

definition phone_b :: "int product" where
  "phone_b = \<lparr>name = ''Phone B'', price = 200, brand = ''Y'', category = ''phones'',
              description = ''Large phone''\<rparr>"

definition phone_c :: "int product" where
  "phone_c = \<lparr>name = ''Phone C'', price = 300, brand = ''X'', category = ''phones'',
              description = ''Folding phone''\<rparr>"

definition catalog :: "int product list" where
  "catalog = [phone_a, phone_b, phone_c]"

definition hit_of :: "int product \<Rightarrow> int \<Rightarrow> (int, int) scored_point" where
  "hit_of p s =
     \<lparr>hit_payload = \<lparr>name = name p, price = price p, brand = brand p,
                     category = category p\<rparr>,
      hit_score = s\<rparr>"

definition result_of :: "int product \<Rightarrow> int \<Rightarrow> (int, int) search_result" where
  "result_of p s =
     \<lparr>name = name p, price = price p, brand = brand p, category = category p,
      score = s\<rparr>"

fun passes :: "query_filter option \<Rightarrow> 'p payload \<Rightarrow> bool" where
  "passes None p = True"
| "passes (Some (Filter conds)) p =
     list_all (\<lambda>c. key c = ''brand'' \<and> brand p = match_value c) conds"

definition mock_search ::
  "('p, 'f) scored_point list \<Rightarrow> 'f list \<Rightarrow> query_filter option \<Rightarrow> int \<Rightarrow>
     ('p, 'f) scored_point list" where
  "mock_search ranked v flt limit =
     take (nat limit) (filter (\<lambda>h. passes flt (hit_payload h)) ranked)"

definition mock_envelope :: json where
  "mock_envelope =
     JObj [(''choices'', JArr [JObj [(''message'', JObj [(''content'', JStr ''mocked'')])]])]"

definition mock_env :: "json \<Rightarrow> (int, int) scored_point list \<Rightarrow> (int, int) env" where
  "mock_env results ranked =
     \<lparr>encode = (\<lambda>t. [int (length t), 1]),
      embedding_dimension = 2,
      client_search = mock_search ranked,
      post = (\<lambda>request. Inr mock_envelope),
      json_loads = (\<lambda>s. Inr (JObj [(''results'', results)])),
      str_price = str_int\<rparr>"

section \<open>Index mapping in semantic search\<close>

lemma list_getitem_one_based:
  "1 \<le> i \<Longrightarrow> i \<le> int (length xs) \<Longrightarrow> list_getitem xs (i - 1) = Inr (xs ! nat (i - 1))"
  by (simp add: list_getitem_def)

lemma comprehension_one_based:
  "\<forall>i\<in>set indices. 1 \<le> i \<and> i \<le> int (length xs) \<Longrightarrow>
   comprehension xs (map JInt indices) = Inr (map (\<lambda>i. xs ! nat (i - 1)) indices)"
  by (induction indices) (simp_all add: list_getitem_one_based)

lemma semantic_search_in_range:
  assumes "parsed_indices env (build_request env query products_data top_k)
             = Inr (JArr (map JInt indices))"
    and "\<forall>i\<in>set indices. 1 \<le> i \<and> i \<le> int (length products_data)"
  shows "semantic_search env query products_data top_k =
           ([Post (build_request env query products_data top_k)],
            map (\<lambda>i. products_data ! nat (i - 1)) indices)"
  using assms
  by (simp add: semantic_search_def Let_def bind_exn_def map_indices_def
      comprehension_one_based)

lemma parsed_indices_mock:
  "parsed_indices (mock_env results ranked) request = Inr results"
  by (simp add: parsed_indices_def mock_env_def mock_envelope_def bind_exn_def
      list_getitem_def)

text \<open>
  Claim C5. When every parsed index lies in \<open>[1, N]\<close>, \<open>semantic_search\<close> maps each
  1-based index \<open>i\<close> to element \<open>i - 1\<close> of the supplied products and returns the
  mapped products in the order of the indices. With three products and the mocked
  response \<^verbatim>\<open>{"results":[2,1]}\<close> the result is \<^verbatim>\<open>[products[1], products[0]]\<close>.
\<close>

theorem semantic_search_maps_indices:
  assumes "parsed_indices env (build_request env query products_data top_k)
             = Inr (JArr (map JInt indices))"
    and "\<forall>i\<in>set indices. 1 \<le> i \<and> i \<le> int (length products_data)"
  shows "snd (semantic_search env query products_data top_k) =
           map (\<lambda>i. products_data ! nat (i - 1)) indices"
  using semantic_search_in_range [OF assms] by simp

theorem semantic_search_maps_indices_witness:
  "parsed_indices (mock_env (JArr [JInt 2, JInt 1]) [])
       (build_request (mock_env (JArr [JInt 2, JInt 1]) []) ''phone'' catalog 2)
     = Inr (JArr (map JInt [2, 1]))
   \<and> set [2, 1 :: int] \<subseteq> {1 .. int (length catalog)}
   \<and> snd (semantic_search (mock_env (JArr [JInt 2, JInt 1]) []) ''phone'' catalog 2)
       = [catalog ! 1, catalog ! 0]"
  using semantic_search_maps_indices
    [of "mock_env (JArr [JInt 2, JInt 1]) []" "''phone''" catalog 2 "[2, 1]"]
  by (simp add: parsed_indices_mock catalog_def)

text \<open>
  Claim C10. \<open>semantic_search\<close> neither deduplicates nor limits the parsed index
  list: with all indices in range the output has one product per index, position by
  position, so a repeated index repeats its product and more than \<open>top_k\<close> indices
  give more than \<open>top_k\<close> products.
\<close>

theorem semantic_search_one_product_per_index:
  assumes "parsed_indices env (build_request env query products_data top_k)
             = Inr (JArr (map JInt indices))"
    and "\<forall>i\<in>set indices. 1 \<le> i \<and> i \<le> int (length products_data)"
  shows "length (snd (semantic_search env query products_data top_k)) = length indices
       \<and> (\<forall>k<length indices.
            snd (semantic_search env query products_data top_k) ! k
              = products_data ! nat (indices ! k - 1))
       \<and> (top_k < int (length indices) \<longrightarrow>
            top_k < int (length (snd (semantic_search env query products_data top_k))))"
  using semantic_search_in_range [OF assms] by simp

theorem semantic_search_one_product_per_index_witness:
  "parsed_indices (mock_env (JArr [JInt 1, JInt 1]) [])
       (build_request (mock_env (JArr [JInt 1, JInt 1]) []) ''phone'' catalog 1)
     = Inr (JArr (map JInt [1, 1]))
   \<and> set [1, 1 :: int] \<subseteq> {1 .. int (length catalog)}
   \<and> snd (semantic_search (mock_env (JArr [JInt 1, JInt 1]) []) ''phone'' catalog 1)
       = [phone_a, phone_a]
   \<and> 1 < int (length
        (snd (semantic_search (mock_env (JArr [JInt 1, JInt 1]) []) ''phone'' catalog 1)))"
proof -
  let ?env = "mock_env (JArr [JInt 1, JInt 1]) []"
  have parsed: "parsed_indices ?env (build_request ?env ''phone'' catalog 1)
                  = Inr (JArr (map JInt [1, 1]))"
    by (simp add: parsed_indices_mock)
  have range: "\<forall>i\<in>set [1, 1 :: int]. 1 \<le> i \<and> i \<le> int (length catalog)"
    by (simp add: catalog_def)
  note r = semantic_search_one_product_per_index [OF parsed range]
  have len: "length (snd (semantic_search ?env ''phone'' catalog 1)) = 2"
    using r by simp
  have "snd (semantic_search ?env ''phone'' catalog 1) ! 0 = phone_a"
    and "snd (semantic_search ?env ''phone'' catalog 1) ! 1 = phone_a"
    using r by (simp_all add: catalog_def)
  with len have "snd (semantic_search ?env ''phone'' catalog 1) = [phone_a, phone_a]"
    by (cases "snd (semantic_search ?env ''phone'' catalog 1)";
        cases "tl (snd (semantic_search ?env ''phone'' catalog 1))") auto
  with parsed range len show ?thesis by simp
qed

section \<open>Indices outside the list\<close>

lemma comprehension_index_error:
  "\<exists>i\<in>set indices. i < 1 - int (length xs) \<or> int (length xs) < i \<Longrightarrow>
   \<exists>e. comprehension xs (map JInt indices) = Inl e"
proof (induction indices)
  case Nil
  then show ?case by simp
next
  case (Cons i indices)
  show ?case
  proof (cases "list_getitem xs (i - 1)")
    case (Inl e)
    then show ?thesis by simp
  next
    case (Inr p)
    then have "\<not> (i < 1 - int (length xs) \<or> int (length xs) < i)"
      by (auto simp: list_getitem_def split: if_splits)
    with Cons.prems have "\<exists>j\<in>set indices. j < 1 - int (length xs) \<or> int (length xs) < j"
      by auto
    then obtain e where "comprehension xs (map JInt indices) = Inl e"
      using Cons.IH by blast
    with Inr show ?thesis by simp
  qed
qed

text \<open>
  An index above \<open>N\<close>, or below \<open>1 - N\<close>, raises \<^verbatim>\<open>IndexError\<close> inside the \<^verbatim>\<open>try\<close>
  block, and the result is the empty list.
\<close>

lemma semantic_search_index_beyond_list:
  assumes "parsed_indices env (build_request env query products_data top_k)
             = Inr (JArr (map JInt indices))"
    and "\<exists>i\<in>set indices. i < 1 - int (length products_data) \<or> int (length products_data) < i"
  shows "snd (semantic_search env query products_data top_k) = []"
proof -
  obtain e where "comprehension products_data (map JInt indices) = Inl e"
    using comprehension_index_error [OF assms(2)] by blast
  with assms(1) show ?thesis
    by (simp add: semantic_search_def Let_def bind_exn_def map_indices_def)
qed

text \<open>
  Claim C1. An index outside \<open>[1, N]\<close> is meant to make \<open>semantic_search\<close> return the
  empty sequence. The index 0 is outside \<open>[1, 3]\<close> for the three-product catalog,
  but \<^verbatim>\<open>products_data[0-1]\<close> is Python's last element: with the mocked response
  \<^verbatim>\<open>{"results":[0]}\<close> no exception is raised, nothing is printed and the third
  product is returned.
\<close>

theorem semantic_search_index_zero_returns_last:
  "semantic_search (mock_env (JArr [JInt 0]) []) ''phone'' catalog 3 =
     ([Post (build_request (mock_env (JArr [JInt 0]) []) ''phone'' catalog 3)],
      [phone_c])"
  by (simp add: semantic_search_def parsed_indices_mock bind_exn_def map_indices_def
      list_getitem_def catalog_def)

section \<open>Hybrid merge\<close>

lemma set_first_occurrences_subset: "set (first_occurrences xs) \<subseteq> set xs"
  by (induction xs rule: first_occurrences.induct) auto

lemma distinct_first_occurrences: "distinct (map item_name (first_occurrences xs))"
proof (induction xs rule: first_occurrences.induct)
  case 1
  then show ?case by simp
next
  case (2 p ps)
  have "item_name p \<notin> item_name ` set (first_occurrences (filter (\<lambda>q. item_name q \<noteq> item_name p) ps))"
    using set_first_occurrences_subset [of "filter (\<lambda>q. item_name q \<noteq> item_name p) ps"] by auto
  with 2 show ?case by simp
qed

lemma first_occurrences_append:
  "first_occurrences (xs @ ys) =
     first_occurrences xs @ first_occurrences (filter (\<lambda>y. item_name y \<notin> item_name ` set xs) ys)"
proof (induction xs arbitrary: ys rule: first_occurrences.induct)
  case 1
  then show ?case by simp
next
  case (2 p ps)
  have eq: "filter (\<lambda>x. item_name x \<noteq> item_name p \<and>
                     item_name x \<notin> item_name ` {x \<in> set ps. item_name x \<noteq> item_name p}) ys
          = filter (\<lambda>y. item_name y \<noteq> item_name p \<and> item_name y \<notin> item_name ` set ps) ys"
    by (rule filter_cong) auto
  show ?case
    using 2 [of "filter (\<lambda>q. item_name q \<noteq> item_name p) ys"] by (simp add: eq)
qed

lemma merge_loop_first_occurrences:
  "merge_loop combined ps =
     combined @ map (\<lambda>p. (item_name p, p))
       (first_occurrences (filter (\<lambda>q. item_name q \<notin> fst ` set combined) ps))"
proof (induction ps arbitrary: combined)
  case Nil
  then show ?case by simp
next
  case (Cons p ps)
  show ?case
  proof (cases "map_of combined (item_name p) = None")
    case True
    then have new: "item_name p \<notin> fst ` set combined"
      by (simp add: map_of_eq_None_iff)
    have eq: "filter (\<lambda>q. item_name q \<noteq> item_name p \<and> item_name q \<notin> fst ` set combined) ps
            = filter (\<lambda>q. item_name q \<notin> fst ` set combined \<and> item_name q \<noteq> item_name p) ps"
      by (rule filter_cong) auto
    show ?thesis
      using True new Cons [of "combined @ [(item_name p, p)]"] by (simp add: eq)
  next
    case False
    then have old: "item_name p \<in> fst ` set combined"
      by (simp add: map_of_eq_None_iff)
    show ?thesis
      using False old Cons [of combined] by auto
  qed
qed

lemma values_merge_loop:
  "map snd (merge_loop [] ps) = first_occurrences ps"
  by (simp add: merge_loop_first_occurrences comp_def)

lemma hybrid_search_result:
  "snd (hybrid_search env products query top_k) =
     slice_to (first_occurrences
        (map Inl (snd (search_products env query top_k None))
           @ map Inr (snd (semantic_search env query products top_k)))) top_k"
  by (simp add: hybrid_search_def Let_def split_beta values_merge_loop)

lemma hybrid_search_effects:
  "fst (hybrid_search env products query top_k) =
     fst (search_products env query top_k None) @ fst (semantic_search env query products top_k)"
  by (simp add: hybrid_search_def Let_def split_beta)

lemma set_slice_to: "set (slice_to xs k) \<subseteq> set xs"
  by (auto simp: slice_to_def dest: in_set_takeD)

lemma distinct_slice_to: "distinct (map f xs) \<Longrightarrow> distinct (map f (slice_to xs k))"
  by (simp add: slice_to_def take_map [symmetric] del: take_map)

lemma search_products_mock:
  "search_products (mock_env results ranked) query top_k None =
     ([Encode query, Search [int (length query), 1] None top_k],
      map (\<lambda>hit. \<lparr>name = name (hit_payload hit), price = price (hit_payload hit),
                  brand = brand (hit_payload hit), category = category (hit_payload hit),
                  score = hit_score hit\<rparr>) (take (nat top_k) ranked))"
  by (simp add: search_products_def mock_env_def mock_search_def)

lemma semantic_search_mock_in_range:
  "\<forall>i\<in>set indices. 1 \<le> i \<and> i \<le> int (length products_data) \<Longrightarrow>
   snd (semantic_search (mock_env (JArr (map JInt indices)) ranked) query products_data top_k) =
     map (\<lambda>i. products_data ! nat (i - 1)) indices"
  by (simp add: semantic_search_in_range parsed_indices_mock)

text \<open>
  Claim C3. For every query and every positive \<open>top_k\<close>, the sequence returned by
  \<open>hybrid_search\<close> has at most \<open>top_k\<close> entries, and no two of them have the same
  name.
\<close>

theorem hybrid_search_bounded_distinct:
  assumes "0 < top_k"
  shows "int (length (snd (hybrid_search env products query top_k))) \<le> top_k
       \<and> distinct (map item_name (snd (hybrid_search env products query top_k)))"
proof
  show "int (length (snd (hybrid_search env products query top_k))) \<le> top_k"
    using assms by (simp add: hybrid_search_result slice_to_def)
  show "distinct (map item_name (snd (hybrid_search env products query top_k)))"
    by (simp add: hybrid_search_result distinct_slice_to distinct_first_occurrences)
qed

theorem hybrid_search_bounded_distinct_witness:
  "(0::int) < 2
   \<and> snd (hybrid_search (mock_env (JArr (map JInt [2, 3])) [hit_of phone_a 9, hit_of phone_b 8])
        catalog ''phone'' 2) = [Inl (result_of phone_a 9), Inl (result_of phone_b 8)]
   \<and> int (length (snd (hybrid_search
        (mock_env (JArr (map JInt [2, 3])) [hit_of phone_a 9, hit_of phone_b 8])
        catalog ''phone'' 2))) \<le> 2
   \<and> distinct (map item_name (snd (hybrid_search
        (mock_env (JArr (map JInt [2, 3])) [hit_of phone_a 9, hit_of phone_b 8])
        catalog ''phone'' 2)))"
proof -
  let ?env = "mock_env (JArr (map JInt [2, 3])) [hit_of phone_a 9, hit_of phone_b 8]"
  have sem: "snd (semantic_search ?env ''phone'' catalog 2) = [phone_b, phone_c]"
    by (subst semantic_search_mock_in_range) (simp_all add: catalog_def)
  have "snd (hybrid_search ?env catalog ''phone'' 2)
          = [Inl (result_of phone_a 9), Inl (result_of phone_b 8)]"
    by (simp add: hybrid_search_result search_products_mock sem slice_to_def item_name_def
        hit_of_def result_of_def phone_a_def phone_b_def phone_c_def)
  then show ?thesis
    using hybrid_search_bounded_distinct [of 2 ?env catalog "''phone''"] by simp
qed

text \<open>
  Claim C4. \<open>hybrid_search\<close> goes through the vector results and then the semantic
  results, keeps the first occurrence of each distinct name and returns the first
  \<open>top_k\<close> of them; an emitted record whose name occurs among the vector results is a
  record of the vector results. With vector results \<open>[A, B]\<close>, semantic results
  \<open>[B, C]\<close> and \<open>top_k = 3\<close> the output is \<open>[A, B, C]\<close> with the vector copy of \<open>B\<close>.
\<close>

theorem hybrid_search_vector_first:
  "snd (hybrid_search env products query top_k) =
     slice_to (first_occurrences
        (map Inl (snd (search_products env query top_k None))
           @ map Inr (snd (semantic_search env query products top_k)))) top_k
   \<and> (\<forall>p\<in>set (snd (hybrid_search env products query top_k)).
        item_name p \<in> name ` set (snd (search_products env query top_k None)) \<longrightarrow>
        p \<in> Inl ` set (snd (search_products env query top_k None)))"
proof (intro conjI ballI impI)
  let ?vr = "snd (search_products env query top_k None)"
  let ?sr = "snd (semantic_search env query products top_k)"
  show res: "snd (hybrid_search env products query top_k) =
     slice_to (first_occurrences (map Inl ?vr @ map Inr ?sr)) top_k"
    by (rule hybrid_search_result)
  fix p
  assume p: "p \<in> set (snd (hybrid_search env products query top_k))"
    and n: "item_name p \<in> name ` set ?vr"
  have names: "item_name ` set (map Inl ?vr :: ('a, 'b) item list) = name ` set ?vr"
    by (auto simp: item_name_def image_iff)
  from p res have "p \<in> set (first_occurrences (map Inl ?vr @ map Inr ?sr))"
    using set_slice_to by fastforce
  then have "p \<in> set (first_occurrences (map Inl ?vr))
           \<or> p \<in> set (first_occurrences
                (filter (\<lambda>y. item_name y \<notin> item_name ` set (map Inl ?vr :: ('a, 'b) item list)) (map Inr ?sr)))"
    by (simp add: first_occurrences_append)
  then show "p \<in> Inl ` set ?vr"
  proof
    assume "p \<in> set (first_occurrences (map Inl ?vr))"
    then show ?thesis using set_first_occurrences_subset by fastforce
  next
    assume "p \<in> set (first_occurrences
                (filter (\<lambda>y. item_name y \<notin> item_name ` set (map Inl ?vr :: ('a, 'b) item list)) (map Inr ?sr)))"
    then have "p \<in> set (filter (\<lambda>y. item_name y \<notin> item_name ` set (map Inl ?vr :: ('a, 'b) item list)) (map Inr ?sr))"
      using set_first_occurrences_subset by blast
    then have "item_name p \<notin> item_name ` set (map Inl ?vr :: ('a, 'b) item list)"
      by simp
    with n names show ?thesis by simp
  qed
qed



theorem hybrid_search_vector_first_witness:
  "snd (search_products (mock_env (JArr (map JInt [2, 3])) [hit_of phone_a 9, hit_of phone_b 8])
        ''phone'' 3 None) = [result_of phone_a 9, result_of phone_b 8]
   \<and> snd (semantic_search (mock_env (JArr (map JInt [2, 3])) [hit_of phone_a 9, hit_of phone_b 8])
        ''phone'' catalog 3) = [phone_b, phone_c]
   \<and> snd (hybrid_search (mock_env (JArr (map JInt [2, 3])) [hit_of phone_a 9, hit_of phone_b 8])
        catalog ''phone'' 3)
       = [Inl (result_of phone_a 9), Inl (result_of phone_b 8), Inr phone_c]"
proof -
  let ?env = "mock_env (JArr (map JInt [2, 3])) [hit_of phone_a 9, hit_of phone_b 8]"
  have vec: "snd (search_products ?env ''phone'' 3 None)
               = [result_of phone_a 9, result_of phone_b 8]"
    by (simp add: search_products_mock hit_of_def result_of_def)
  have sem: "snd (semantic_search ?env ''phone'' catalog 3) = [phone_b, phone_c]"
    by (subst semantic_search_mock_in_range) (simp_all add: catalog_def)
  have "snd (hybrid_search ?env catalog ''phone'' 3)
          = slice_to (first_occurrences
              (map Inl [result_of phone_a 9, result_of phone_b 8] @ map Inr [phone_b, phone_c])) 3"
    using hybrid_search_vector_first [of ?env catalog "''phone''" 3, THEN conjunct1]
    unfolding vec sem .
  also have "\<dots> = [Inl (result_of phone_a 9), Inl (result_of phone_b 8), Inr phone_c]"
    by (simp add: slice_to_def item_name_def result_of_def
        phone_a_def phone_b_def phone_c_def)
  finally show ?thesis using vec sem by simp
qed

section \<open>Requested result count\<close>

text \<open>
  No entry point looks at the sign of \<open>top_k\<close>. With \<open>top_k = 0\<close> the vector search
  still embeds the query and queries the index, and the semantic search still posts
  the request and returns the products the reply names; with \<open>top_k = -1\<close> the hybrid
  search makes all three calls and returns a product.
\<close>

theorem nonpositive_top_k_not_rejected:
  "fst (search_products (mock_env (JArr [JInt 2, JInt 3]) [hit_of phone_a 9, hit_of phone_b 8])
        ''phone'' 0 None) = [Encode ''phone'', Search [5, 1] None 0]
   \<and> semantic_search (mock_env (JArr [JInt 2, JInt 3]) [hit_of phone_a 9, hit_of phone_b 8])
        ''phone'' catalog 0
       = ([Post \<lparr>prompt_top_k = 0, prompt_query = ''phone'',
                  prompt_context = context_str str_int catalog\<rparr>],
          [phone_b, phone_c])
   \<and> hybrid_search (mock_env (JArr [JInt 2, JInt 3]) [hit_of phone_a 9, hit_of phone_b 8])
        catalog ''phone'' (- 1)
       = ([Encode ''phone'', Search [5, 1] None (- 1),
           Post \<lparr>prompt_top_k = - 1, prompt_query = ''phone'',
                 prompt_context = context_str str_int catalog\<rparr>],
          [Inr phone_b])"
proof -
  let ?env = "mock_env (JArr [JInt 2, JInt 3]) [hit_of phone_a 9, hit_of phone_b 8]"
  have sp: "search_products ?env ''phone'' k None =
     ([Encode ''phone'', Search [5, 1] None k],
      map (\<lambda>hit. \<lparr>name = name (hit_payload hit), price = price (hit_payload hit),
                  brand = brand (hit_payload hit), category = category (hit_payload hit),
                  score = hit_score hit\<rparr>) (take (nat k) [hit_of phone_a 9, hit_of phone_b 8]))" for k
    by (simp add: search_products_mock)
  have req: "build_request ?env ''phone'' ps k =
     \<lparr>prompt_top_k = k, prompt_query = ''phone'', prompt_context = context_str str_int ps\<rparr>"
    for k ps
    by (simp add: build_request_def mock_env_def)
  have sem: "semantic_search ?env ''phone'' catalog k =
     ([Post \<lparr>prompt_top_k = k, prompt_query = ''phone'',
              prompt_context = context_str str_int catalog\<rparr>], [phone_b, phone_c])" for k
    by (subst semantic_search_in_range [where indices = "[2, 3]"])
       (simp_all add: parsed_indices_mock req catalog_def)
  have hyb: "hybrid_search ?env catalog ''phone'' (- 1)
       = ([Encode ''phone'', Search [5, 1] None (- 1),
           Post \<lparr>prompt_top_k = - 1, prompt_query = ''phone'',
                 prompt_context = context_str str_int catalog\<rparr>],
          [Inr phone_b])"
    unfolding hybrid_search_def sp sem
    by (simp add: slice_to_def item_name_def phone_b_def phone_c_def)
  show ?thesis using sp [of 0] sem [of 0] hyb by simp
qed

text \<open>
  Claim C2, as the code has it. The entry points do not validate \<open>top_k\<close>: for every
  \<open>top_k\<close>, positive or not, \<open>search_products\<close> embeds the query and queries the
  vector index with limit \<open>top_k\<close>, \<open>semantic_search\<close> posts a request that carries
  \<open>top_k\<close>, and \<open>hybrid_search\<close> does both, in that order.
\<close>

theorem top_k_passed_through:
  "(\<exists>flt. fst (search_products env query top_k brand_filter)
            = [Encode query, Search (encode env query) flt top_k])
   \<and> (\<exists>rest. fst (semantic_search env query products_data top_k)
            = Post (build_request env query products_data top_k) # rest)
   \<and> prompt_top_k (build_request env query products_data top_k) = top_k
   \<and> fst (hybrid_search env products query top_k)
       = [Encode query, Search (encode env query) None top_k]
           @ fst (semantic_search env query products top_k)"
proof (intro conjI)
  show "\<exists>flt. fst (search_products env query top_k brand_filter)
            = [Encode query, Search (encode env query) flt top_k]"
    by (simp add: search_products_def Let_def)
  show "\<exists>rest. fst (semantic_search env query products_data top_k)
            = Post (build_request env query products_data top_k) # rest"
    by (simp add: semantic_search_def Let_def split: sum.split)
  show "prompt_top_k (build_request env query products_data top_k) = top_k"
    by (simp add: build_request_def)
  show "fst (hybrid_search env products query top_k)
       = [Encode query, Search (encode env query) None top_k]
           @ fst (semantic_search env query products top_k)"
    by (simp add: hybrid_search_effects) (simp add: search_products_def Let_def)
qed

section \<open>Brand filter\<close>

lemma search_products_no_filter:
  "search_products env query top_k (Some []) = search_products env query top_k None"
  by (simp add: search_products_def)

lemma mock_search_honours_filter:
  "\<forall>v b k. \<forall>h\<in>set (client_search (mock_env results ranked) v
                       (Some (Filter [FieldCondition ''brand'' b])) k).
     brand (hit_payload h) = b"
  by (auto simp: mock_env_def mock_search_def dest: in_set_takeD)

text \<open>
  Claim C9. A call of \<open>search_products\<close> with the empty string as \<open>brand_filter\<close>
  is the same as the call with no brand filter: the index is queried without a
  filter, so records of any brand can come back.
\<close>

theorem search_products_empty_brand_filter:
  "search_products env query top_k (Some '''') = search_products env query top_k None
   \<and> fst (search_products env query top_k (Some ''''))
       = [Encode query, Search (encode env query) None top_k]"
  by (simp add: search_products_def Let_def)

theorem search_products_empty_brand_filter_witness:
  "search_products (mock_env JNull [hit_of phone_a 9, hit_of phone_b 8]) ''phone'' 3 (Some '''')
     = search_products (mock_env JNull [hit_of phone_a 9, hit_of phone_b 8]) ''phone'' 3 None
   \<and> search_products (mock_env JNull [hit_of phone_a 9, hit_of phone_b 8]) ''phone'' 3 None
     = ([Encode ''phone'', Search [5, 1] None 3], [result_of phone_a 9, result_of phone_b 8])"
  using search_products_empty_brand_filter
    [of "mock_env JNull [hit_of phone_a 9, hit_of phone_b 8]" "''phone''" 3]
  by (simp add: search_products_mock hit_of_def result_of_def)

text \<open>
  With the empty string as \<open>brand_filter\<close> the vector search returns records whose
  brand is not the empty string.
\<close>

theorem empty_brand_filter_returns_other_brands:
  "snd (search_products (mock_env JNull [hit_of phone_a 9, hit_of phone_b 8]) ''phone'' 3 (Some ''''))
     = [result_of phone_a 9, result_of phone_b 8]
   \<and> brand (result_of phone_a 9) = ''X''
   \<and> ''X'' \<noteq> ''''"
  by (simp add: search_products_no_filter search_products_mock hit_of_def result_of_def phone_a_def)

text \<open>
  Claim C6, as the code has it. For every query and every non-empty \<open>brand_filter\<close>,
  every record returned by \<open>search_products\<close> has exactly that brand, given that the
  vector index returns only hits that satisfy the brand condition it is passed.
\<close>

theorem search_products_brand_filter:
  assumes "\<forall>v b k. \<forall>h\<in>set (client_search env v (Some (Filter [FieldCondition ''brand'' b])) k).
             brand (hit_payload h) = b"
    and "brand_filter \<noteq> []"
  shows "\<forall>r\<in>set (snd (search_products env query top_k (Some brand_filter))).
           brand r = brand_filter"
  using assms by (auto simp: search_products_def Let_def)

theorem search_products_brand_filter_witness:
  "''Y'' \<noteq> []
   \<and> snd (search_products (mock_env JNull [hit_of phone_a 9, hit_of phone_b 8]) ''phone'' 1 (Some ''Y''))
       = [result_of phone_b 8]
   \<and> list_all (\<lambda>r. brand r = ''Y'')
        (snd (search_products (mock_env JNull [hit_of phone_a 9, hit_of phone_b 8]) ''phone'' 1 (Some ''Y'')))"
proof -
  let ?env = "mock_env JNull [hit_of phone_a 9, hit_of phone_b 8]"
  have ne: "''Y'' \<noteq> []" by simp
  have val: "snd (search_products ?env ''phone'' 1 (Some ''Y'')) = [result_of phone_b 8]"
    by (simp add: search_products_def mock_env_def mock_search_def hit_of_def result_of_def
        phone_a_def phone_b_def)
  have "\<forall>r\<in>set (snd (search_products ?env ''phone'' 1 (Some ''Y''))). brand r = ''Y''"
    by (rule search_products_brand_filter [OF mock_search_honours_filter ne])
  then have "list_all (\<lambda>r. brand r = ''Y'') (snd (search_products ?env ''phone'' 1 (Some ''Y'')))"
    by (simp add: list_all_iff)
  with ne val show ?thesis by simp
qed

section \<open>Building the index\<close>

lemma upsert_point_new:
  "idx pt \<notin> idx ` set qs \<Longrightarrow> upsert_point pt qs = qs @ [pt]"
  by (induction qs) auto

lemma fold_upsert_point_distinct:
  "distinct (map idx (qs @ pts)) \<Longrightarrow> fold upsert_point pts qs = qs @ pts"
proof (induction pts arbitrary: qs)
  case Nil
  then show ?case by simp
next
  case (Cons pt pts)
  from Cons.prems have new: "idx pt \<notin> idx ` set qs"
    by auto
  from Cons.prems have "distinct (map idx ((qs @ [pt]) @ pts))"
    by simp
  then have "fold upsert_point pts (qs @ [pt]) = (qs @ [pt]) @ pts"
    by (rule Cons.IH)
  with new show ?case
    by (simp add: upsert_point_new)
qed

lemma idx_build_points: "map idx (build_points env products) = [0..<length products]"
proof -
  have "map idx (build_points env products) = map fst (enumerate 0 products)"
    by (simp add: build_points_def split_beta comp_def)
  then show ?thesis by simp
qed

lemma length_build_points: "length (build_points env products) = length products"
  by (simp add: build_points_def)

lemma nth_build_points:
  "i < length products \<Longrightarrow>
   build_points env products ! i =
     \<lparr>idx = i,
      vector = encode env (name (products ! i) @ '' '' @ description (products ! i)),
      payload = \<lparr>name = name (products ! i), price = price (products ! i),
                 brand = brand (products ! i), category = category (products ! i)\<rparr>\<rparr>"
  by (simp add: build_points_def nth_enumerate_eq)

lemma indexer_collection:
  "indexer env products client COLLECTION_NAME =
     Some \<lparr>vector_size = embedding_dimension env, vector_distance = COSINE,
           points = build_points env products\<rparr>"
proof -
  have "distinct (map idx ([] @ build_points env products))"
    by (simp add: idx_build_points)
  then have "fold upsert_point (build_points env products) [] = build_points env products"
    using fold_upsert_point_distinct [of "[]" "build_points env products"] by simp
  then show ?thesis
    by (simp add: indexer_def Let_def upsert_def create_collection_def delete_collection_def
        split: option.split)
qed

lemma mock_encode_dimension:
  "\<forall>t. length (encode (mock_env results ranked) t) = embedding_dimension (mock_env results ranked)"
  by (simp add: mock_env_def)

text \<open>
  Claim C7. Whatever the catalog and the earlier state of the client, after the
  indexing step the collection holds one record per product: as many records as the
  catalog has products, with the 0-based positions as identifiers and the product's
  payload at each position; and every stored vector has the dimension the collection
  was created with, the embedding model's, given that the model returns vectors of
  its declared dimension.
\<close>

theorem indexer_one_record_per_product:
  assumes "\<forall>t. length (encode env t) = embedding_dimension env"
  shows "\<exists>c. indexer env products client COLLECTION_NAME = Some c
       \<and> vector_size c = embedding_dimension env
       \<and> length (points c) = length products
       \<and> map idx (points c) = [0..<length products]
       \<and> (\<forall>i<length products.
             payload (points c ! i) =
               \<lparr>name = name (products ! i), price = price (products ! i),
                brand = brand (products ! i), category = category (products ! i)\<rparr>)
       \<and> (\<forall>pt\<in>set (points c). length (vector pt) = vector_size c)"
proof -
  let ?c = "\<lparr>vector_size = embedding_dimension env, vector_distance = COSINE,
           points = build_points env products\<rparr>"
  have dims: "\<forall>pt\<in>set (points ?c). length (vector pt) = vector_size ?c"
    using assms by (auto simp: build_points_def)
  have "indexer env products client COLLECTION_NAME = Some ?c"
    by (rule indexer_collection)
  moreover have "length (points ?c) = length products"
    by (simp add: length_build_points)
  moreover have "map idx (points ?c) = [0..<length products]"
    by (simp add: idx_build_points)
  moreover have "\<forall>i<length products.
             payload (points ?c ! i) =
               \<lparr>name = name (products ! i), price = price (products ! i),
                brand = brand (products ! i), category = category (products ! i)\<rparr>"
    by (simp add: nth_build_points)
  ultimately show ?thesis using dims by simp
qed

theorem indexer_one_record_per_product_witness:
  "\<exists>c. indexer (mock_env JNull []) catalog
          (\<lambda>n. if n = COLLECTION_NAME
                then Some \<lparr>vector_size = 7, vector_distance = DOT, points = []\<rparr> else None)
          COLLECTION_NAME = Some c
       \<and> vector_size c = 2
       \<and> length (points c) = 3
       \<and> map idx (points c) = [0, 1, 2]
       \<and> map vector (points c) = [[19, 1], [19, 1], [21, 1]]
       \<and> map (\<lambda>pt. name (payload pt)) (points c) = [''Phone A'', ''Phone B'', ''Phone C'']"
proof -
  let ?client = "\<lambda>n. if n = COLLECTION_NAME
                then Some \<lparr>vector_size = 7, vector_distance = DOT, points = []\<rparr> else None"
  obtain c where c: "indexer (mock_env JNull []) catalog ?client COLLECTION_NAME = Some c"
    and sz: "vector_size c = embedding_dimension (mock_env JNull [])"
    and len: "length (points c) = length catalog"
    and ids: "map idx (points c) = [0..<length catalog]"
    using indexer_one_record_per_product [OF mock_encode_dimension, of JNull "[]" catalog ?client]
    by blast
  have "c = \<lparr>vector_size = embedding_dimension (mock_env JNull []), vector_distance = COSINE,
           points = build_points (mock_env JNull []) catalog\<rparr>"
    using c by (simp add: indexer_collection)
  then have "map vector (points c) = [[19, 1], [19, 1], [21, 1]]"
    and "map (\<lambda>pt. name (payload pt)) (points c) = [''Phone A'', ''Phone B'', ''Phone C'']"
    by (simp_all add: build_points_def mock_env_def catalog_def phone_a_def phone_b_def
        phone_c_def enumerate_simps)
  with c sz len ids show ?thesis
    by (simp add: mock_env_def catalog_def upt_rec)
qed

section \<open>The product listing of the prompt\<close>

lemma map_enumerate_nth:
  "map (\<lambda>(i, x). f i x) (enumerate n xs) = map (\<lambda>k. f (n + k) (xs ! k)) [0..<length xs]"
  by (rule nth_equalityI) (simp_all add: nth_enumerate_eq)

text \<open>
  Claim C8. The listing that \<open>semantic_search\<close> puts into the request has one line
  per supplied product, in input order, joined by newlines; line \<open>k\<close> (counting from
  0) is \<^verbatim>\<open>index. name (brand): description | $price\<close> with the 1-based index
  \<open>k + 1\<close> and the fields of product \<open>k\<close>.
\<close>

theorem semantic_search_listing:
  "prompt_context (build_request env query products_data top_k) =
     join [CHR 0x0A]
       (map (\<lambda>k. str_nat (k + 1) @ ''. '' @ name (products_data ! k)
                    @ '' ('' @ brand (products_data ! k) @ ''): ''
                    @ description (products_data ! k)
                    @ '' | $'' @ str_price env (price (products_data ! k)))
            [0..<length products_data])
   \<and> (\<exists>rest. fst (semantic_search env query products_data top_k)
         = Post (build_request env query products_data top_k) # rest)"
proof
  show "prompt_context (build_request env query products_data top_k) =
     join [CHR 0x0A]
       (map (\<lambda>k. str_nat (k + 1) @ ''. '' @ name (products_data ! k)
                    @ '' ('' @ brand (products_data ! k) @ ''): ''
                    @ description (products_data ! k)
                    @ '' | $'' @ str_price env (price (products_data ! k)))
            [0..<length products_data])"
    by (simp add: build_request_def context_str_def map_enumerate_nth listing_line_def)
  show "\<exists>rest. fst (semantic_search env query products_data top_k)
         = Post (build_request env query products_data top_k) # rest"
    by (simp add: semantic_search_def Let_def split: sum.split)
qed

theorem semantic_search_listing_witness:
  "prompt_context (build_request (mock_env JNull []) ''phone'' catalog 2) =
     ''1. Phone A (X): Small phone | $100'' @ [CHR 0x0A] @
     ''2. Phone B (Y): Large phone | $200'' @ [CHR 0x0A] @
     ''3. Phone C (X): Folding phone | $300''"
proof -
  have "prompt_context (build_request (mock_env JNull []) ''phone'' catalog 2) =
     join [CHR 0x0A]
       (map (\<lambda>k. str_nat (k + 1) @ ''. '' @ name (catalog ! k)
                    @ '' ('' @ brand (catalog ! k) @ ''): ''
                    @ description (catalog ! k)
                    @ '' | $'' @ str_price (mock_env JNull []) (price (catalog ! k)))
            [0..<length catalog])"
    using semantic_search_listing [of "mock_env JNull []" "''phone''" catalog 2]
    by (rule conjunct1)
  also have "\<dots> =
     ''1. Phone A (X): Small phone | $100'' @ [CHR 0x0A] @
     ''2. Phone B (Y): Large phone | $200'' @ [CHR 0x0A] @
     ''3. Phone C (X): Folding phone | $300''"
    by code_simp
  finally show ?thesis .
qed

end
